theory Spec2Isabelle
  imports Main "HOL-Library.Sublist" "HOL-Library.AList"
begin

section \<open>Python values\<close>

text \<open>
  A Python \<open>str\<close> is a sequence of Unicode code points: \<open>len\<close> and slicing count code
  points, not bytes. A string is therefore modelled as a list of code points, and an ASCII
  literal of the source is written \<open>lit ''...''\<close>. The accented letters of the Spanish
  messages are given by their code points.

  Console output (\<open>print\<close>) is not part of the model: no operation below reads it back.
\<close>

type_synonym pystr = "nat list"

definition lit :: "string \<Rightarrow> pystr" where
  "lit s = map of_char s"

definition nl :: pystr where
  "nl = [10]"

definition a_acute :: pystr where "a_acute = [225]"
definition e_acute :: pystr where "e_acute = [233]"
definition i_acute :: pystr where "i_acute = [237]"
definition o_acute :: pystr where "o_acute = [243]"
definition u_acute :: pystr where "u_acute = [250]"

text \<open>\<open>sep.join(xs)\<close>\<close>

fun join :: "pystr \<Rightarrow> pystr list \<Rightarrow> pystr" where
  "join sep [] = []"
| "join sep [x] = x"
| "join sep (x # y # ys) = x @ sep @ join sep (y # ys)"

text \<open>
  Every \<open>raise\<close> of the source is a constructor carrying the message. An exception that
  comes out of a library collaborator (query engine, language model, directory reader,
  vector store) is \<open>ExternalError\<close> with whatever message the collaborator gave.
  \<open>NotADirectoryError\<close> and \<open>FileExistsError\<close> are the ones \<open>pathlib\<close> raises.
\<close>

datatype error =
    FileNotFoundError pystr
  | ValueError pystr
  | NotADirectoryError
  | FileExistsError
  | ExternalError pystr

section \<open>Chat memory\<close>

record ChatMessage =
  role :: pystr
  content :: pystr

text \<open>
  Modelled from the spec: \<open>ChatMemoryBuffer\<close> is a class of the \<open>llama_index\<close> library,
  which is not among the sources; \<open>chatbot.py\<close> only constructs it with
  \<open>token_limit=4096\<close> and calls \<open>put\<close>, \<open>get_messages\<close> and \<open>reset\<close>. The spec describes
  it as an ordered sequence of chat turns, mutated only by appends and cleared wholesale
  on reset, bounded by a token budget: when the budget is exceeded, the oldest turns are
  dropped until the history fits. How many tokens a turn costs is the tokenizer's business;
  the tokenizer is a field of the buffer, given at construction.
\<close>

record ChatMemoryBuffer =
  token_limit :: nat
  tokenizer_fn :: "pystr \<Rightarrow> nat"
  messages :: "ChatMessage list"

definition from_defaults :: "(pystr \<Rightarrow> nat) \<Rightarrow> nat \<Rightarrow> ChatMemoryBuffer" where
  "from_defaults tok limit = \<lparr>token_limit = limit, tokenizer_fn = tok, messages = []\<rparr>"

definition token_count :: "(pystr \<Rightarrow> nat) \<Rightarrow> ChatMessage list \<Rightarrow> nat" where
  "token_count tok ms = sum_list (map (\<lambda>m. tok (content m)) ms)"

text \<open>The head of the list is the oldest turn.\<close>

fun evict :: "(pystr \<Rightarrow> nat) \<Rightarrow> nat \<Rightarrow> ChatMessage list \<Rightarrow> ChatMessage list" where
  "evict tok limit [] = []"
| "evict tok limit (m # ms) =
     (if limit < token_count tok (m # ms) then evict tok limit ms else m # ms)"

definition put :: "pystr \<Rightarrow> pystr \<Rightarrow> ChatMemoryBuffer \<Rightarrow> ChatMemoryBuffer" where
  "put r c b =
     b\<lparr>messages := evict (tokenizer_fn b) (token_limit b)
                      (messages b @ [\<lparr>role = r, content = c\<rparr>])\<rparr>"

definition get_messages :: "ChatMemoryBuffer \<Rightarrow> ChatMessage list" where
  "get_messages b = messages b"

definition reset :: "ChatMemoryBuffer \<Rightarrow> ChatMemoryBuffer" where
  "reset b = b\<lparr>messages := []\<rparr>"

section \<open>retriever.py\<close>

text \<open>
  The index, the retriever and the query engine are library objects. The model keeps them
  as values that record how they were constructed; what they compute (\<open>query\<close>,
  \<open>retrieve\<close>) is a parameter of the operations that call them, returning either the
  message of the exception the library raised or the result.
\<close>

datatype 'idx VectorIndexRetriever = VectorIndexRetriever 'idx nat

datatype response_synthesizer = CompactAndRefine

datatype 'idx RetrieverQueryEngine =
  RetrieverQueryEngine "'idx VectorIndexRetriever" response_synthesizer

datatype Response = Response pystr

fun str_Response :: "Response \<Rightarrow> pystr" where
  "str_Response (Response s) = s"

record 'idx InformationRetriever =
  index :: 'idx
  top_k :: nat
  retriever :: "'idx VectorIndexRetriever option"
  query_engine :: "'idx RetrieverQueryEngine option"

definition setup_retriever :: "'idx InformationRetriever \<Rightarrow> 'idx InformationRetriever" where
  "setup_retriever self =
     (let self1 = self\<lparr>retriever := Some (VectorIndexRetriever (index self) (top_k self))\<rparr>;
          response_synthesizer = CompactAndRefine
      in (case retriever self1 of
            Some r \<Rightarrow> self1\<lparr>query_engine := Some (RetrieverQueryEngine r response_synthesizer)\<rparr>
          | None \<Rightarrow> self1))"

definition InformationRetriever_init :: "'idx \<Rightarrow> nat \<Rightarrow> 'idx InformationRetriever" where
  "InformationRetriever_init idx k =
     setup_retriever \<lparr>index = idx, top_k = k, retriever = None, query_engine = None\<rparr>"

definition retrieve_information ::
  "('idx RetrieverQueryEngine \<Rightarrow> pystr \<Rightarrow> pystr + Response) \<Rightarrow>
   'idx InformationRetriever \<Rightarrow> pystr \<Rightarrow> error + Response" where
  "retrieve_information query self query_text =
     (case query_engine self of
        None \<Rightarrow> Inl (ValueError (lit ''El motor de consultas no est'' @ a_acute @ lit '' configurado''))
      | Some qe \<Rightarrow>
          (case query qe query_text of
             Inl msg \<Rightarrow> Inl (ExternalError msg)
           | Inr response \<Rightarrow> Inr response))"

section \<open>chatbot.py\<close>

datatype OpenAI = OpenAI pystr

datatype CompletionResponse = CompletionResponse pystr

fun str_CompletionResponse :: "CompletionResponse \<Rightarrow> pystr" where
  "str_CompletionResponse (CompletionResponse s) = s"

record 'idx RagChatbot =
  cb_retriever :: "'idx InformationRetriever"
  chat_history :: ChatMemoryBuffer
  system_prompt :: pystr
  llm :: OpenAI

definition indent :: pystr where
  "indent = lit ''        ''"

definition system_prompt_text :: pystr where
  "system_prompt_text = concat
    [nl,
     indent, lit ''Eres un asistente '', u_acute,
       lit ''til y experto basado en RAG (Retrieval-Augmented Generation).'', nl,
     indent, nl,
     indent, lit ''Tu tarea es responder preguntas bas'', a_acute, lit ''ndote '', u_acute,
       lit ''nicamente en la informaci'', o_acute, lit ''n proporcionada '', nl,
     indent, lit ''en tu contexto. No inventes informaci'', o_acute,
       lit ''n ni uses conocimiento que no est'', e_acute, lit '' en el contexto.'', nl,
     indent, nl,
     indent, lit ''Si no conoces la respuesta o la informaci'', o_acute, lit ''n no est'', a_acute,
       lit '' en el contexto proporcionado, '', nl,
     indent, lit ''indica amablemente que no tienes esa informaci'', o_acute,
       lit ''n y sugiere al usuario que reformule'', nl,
     indent, lit ''su pregunta o proporcione m'', a_acute, lit ''s documentos con esa informaci'',
       o_acute, lit ''n.'', nl,
     indent, nl,
     indent, lit ''Utiliza un tono profesional y amigable. '',
       lit ''Organiza tus respuestas de forma clara y concisa.'', nl,
     indent]"

text \<open>
  \<open>__init__\<close>. The tokenizer is the library's default one, a parameter here.
\<close>

definition RagChatbot_init ::
  "(pystr \<Rightarrow> nat) \<Rightarrow> 'idx InformationRetriever \<Rightarrow> 'idx RagChatbot" where
  "RagChatbot_init tok r =
     \<lparr>cb_retriever = r,
      chat_history = from_defaults tok 4096,
      system_prompt = system_prompt_text,
      llm = OpenAI (lit ''gpt-3.5-turbo'')\<rparr>"

definition format_message :: "ChatMessage \<Rightarrow> pystr" where
  "format_message msg =
     (let r = (if role msg = lit ''user'' then lit ''Usuario'' else lit ''Asistente'')
      in r @ lit '': '' @ content msg)"

definition format_chat_history :: "'idx RagChatbot \<Rightarrow> pystr" where
  "format_chat_history self =
     (let msgs = get_messages (chat_history self)
      in if msgs = [] then lit ''No hay historial de chat previo.''
         else join nl (map format_message msgs))"

definition build_prompt :: "pystr \<Rightarrow> pystr \<Rightarrow> pystr \<Rightarrow> pystr \<Rightarrow> pystr" where
  "build_prompt sys_prompt history context user_input = concat
    [nl,
     indent, sys_prompt, nl,
     indent, nl,
     indent, lit ''Historial de la conversaci'', o_acute, lit ''n:'', nl,
     indent, history, nl,
     indent, nl,
     indent, lit ''Contexto recuperado de los documentos:'', nl,
     indent, context, nl,
     indent, nl,
     indent, lit ''Pregunta del usuario: '', user_input, nl,
     indent, nl,
     indent, lit ''Por favor, responde bas'', a_acute, lit ''ndote '', u_acute,
       lit ''nicamente en el contexto proporcionado.'', nl,
     indent]"

text \<open>
  \<open>chat\<close> returns the result (the exception or the answer) and the chatbot after the
  call. \<open>query\<close> is what the query engine answers and \<open>complete\<close> what the language model
  answers in this call; either may raise.
\<close>

definition chat ::
  "('idx RetrieverQueryEngine \<Rightarrow> pystr \<Rightarrow> pystr + Response) \<Rightarrow>
   (OpenAI \<Rightarrow> pystr \<Rightarrow> pystr + CompletionResponse) \<Rightarrow>
   'idx RagChatbot \<Rightarrow> pystr \<Rightarrow> (error + pystr) \<times> 'idx RagChatbot" where
  "chat query complete self user_input =
     (case retrieve_information query (cb_retriever self) user_input of
        Inl e \<Rightarrow> (Inl e, self)
      | Inr retrieval_response \<Rightarrow>
          (let history = format_chat_history self;
               context = str_Response retrieval_response;
               prompt = build_prompt (system_prompt self) history context user_input
           in (case complete (llm self) prompt of
                 Inl msg \<Rightarrow> (Inl (ExternalError msg), self)
               | Inr response \<Rightarrow>
                   (let self1 = self\<lparr>chat_history := put (lit ''user'') user_input (chat_history self)\<rparr>;
                        self2 = self1\<lparr>chat_history :=
                                  put (lit ''assistant'') (str_CompletionResponse response)
                                      (chat_history self1)\<rparr>
                    in (Inr (str_CompletionResponse response), self2)))))"

text \<open>A dict with the keys \<open>role\<close> and \<open>content\<close>, in insertion order.\<close>

type_synonym pydict = "(pystr \<times> pystr) list"

definition message_dict :: "ChatMessage \<Rightarrow> pydict" where
  "message_dict msg = [(lit ''role'', role msg), (lit ''content'', content msg)]"

definition get_chat_history :: "'idx RagChatbot \<Rightarrow> pydict list" where
  "get_chat_history self =
     (let msgs = get_messages (chat_history self) in map message_dict msgs)"

definition clear_history :: "'idx RagChatbot \<Rightarrow> 'idx RagChatbot" where
  "clear_history self = self\<lparr>chat_history := reset (chat_history self)\<rparr>"

text \<open>
  The chatbots that a session can be in: the one \<open>__init__\<close> builds, and any reached from
  it by chat turns (whatever the query engine and the language model answer, or raise) and
  by clearing the history.
\<close>

inductive reachable :: "(pystr \<Rightarrow> nat) \<Rightarrow> 'idx RagChatbot \<Rightarrow> bool" for tok where
  init: "reachable tok (RagChatbot_init tok r)"
| turn: "reachable tok self \<Longrightarrow> reachable tok (snd (chat query complete self user_input))"
| clear: "reachable tok self \<Longrightarrow> reachable tok (clear_history self)"

subsection \<open>The list that \<open>get_chat_history\<close> returns, as an object\<close>







subsection \<open>The debug view of the retriever\<close>

text \<open>
  A retrieved node carries its text and, if it has the attribute at all, a score (which
  may itself be \<open>None\<close>). The score is a float that is only passed through, so its type is
  left open.
\<close>

datatype 'a attr = NoAttr | HasAttr 'a

record 'sc NodeWithScore =
  node_text :: pystr
  score :: "'sc option attr"

record 'sc node_summary =
  summary_score :: "'sc option"
  text_preview :: pystr

record 'sc context_info =
  num_nodes_retrieved :: nat
  nodes_summary :: "'sc node_summary list"

definition summarize_node :: "'sc NodeWithScore \<Rightarrow> 'sc node_summary" where
  "summarize_node node =
     \<lparr>summary_score = (case score node of HasAttr s \<Rightarrow> s | NoAttr \<Rightarrow> None),
      text_preview = (if 100 < length (node_text node) then take 100 (node_text node) @ lit ''...''
                      else node_text node)\<rparr>"

definition get_retrieval_context ::
  "('idx VectorIndexRetriever \<Rightarrow> pystr \<Rightarrow> pystr + 'sc NodeWithScore list) \<Rightarrow>
   'idx InformationRetriever \<Rightarrow> pystr \<Rightarrow> error + 'sc context_info" where
  "get_retrieval_context retrieve self query_text =
     (case retriever self of
        None \<Rightarrow> Inl (ValueError (lit ''El recuperador no est'' @ a_acute @ lit '' configurado''))
      | Some r \<Rightarrow>
          (case retrieve r query_text of
             Inl msg \<Rightarrow> Inl (ExternalError msg)
           | Inr nodes \<Rightarrow>
               Inr \<lparr>num_nodes_retrieved = length nodes,
                    nodes_summary = map summarize_node nodes\<rparr>))"

section \<open>The file system\<close>

text \<open>
  A \<open>Path\<close> is the list of its components below the working directory, and the file
  system is the tree under it: a node is a file or a directory with its named entries.
\<close>

type_synonym path = "pystr list"

datatype node = File | Dir "(pystr \<times> node) list"

fun lookup :: "node \<Rightarrow> path \<Rightarrow> node option" where
  "lookup n [] = Some n"
| "lookup File (c # cs) = None"
| "lookup (Dir es) (c # cs) = (case map_of es c of None \<Rightarrow> None | Some n \<Rightarrow> lookup n cs)"

definition exists :: "node \<Rightarrow> path \<Rightarrow> bool" where
  "exists fs p = (lookup fs p \<noteq> None)"

definition str_path :: "path \<Rightarrow> pystr" where
  "str_path p = (if p = [] then lit ''.'' else join (lit ''/'') p)"

definition iterdir :: "node \<Rightarrow> path \<Rightarrow> error + path list" where
  "iterdir fs p =
     (case lookup fs p of
        None \<Rightarrow> Inl (FileNotFoundError (str_path p))
      | Some File \<Rightarrow> Inl NotADirectoryError
      | Some (Dir es) \<Rightarrow> Inr (map (\<lambda>(name, _). p @ [name]) es))"

text \<open>\<open>Path.mkdir(parents=True, exist_ok=True)\<close>\<close>

fun mkdir :: "node \<Rightarrow> path \<Rightarrow> error + node" where
  "mkdir (Dir es) [] = Inr (Dir es)"
| "mkdir File [] = Inl FileExistsError"
| "mkdir File (c # cs) = Inl NotADirectoryError"
| "mkdir (Dir es) (c # cs) =
     (case map_of es c of
        None \<Rightarrow>
          (case mkdir (Dir []) cs of
             Inl e \<Rightarrow> Inl e
           | Inr n \<Rightarrow> Inr (Dir (es @ [(c, n)])))
      | Some n \<Rightarrow>
          (case mkdir n cs of
             Inl e \<Rightarrow> Inl e
           | Inr n' \<Rightarrow> Inr (Dir (AList.update c n' es))))"

text \<open>Creating or truncating a file, as \<open>open(path, "w")\<close> does.\<close>

fun write_file :: "node \<Rightarrow> path \<Rightarrow> error + node" where
  "write_file n [] = Inl FileExistsError"
| "write_file File (c # cs) = Inl NotADirectoryError"
| "write_file (Dir es) [c] =
     (case map_of es c of
        Some (Dir _) \<Rightarrow> Inl FileExistsError
      | _ \<Rightarrow> Inr (Dir (AList.update c File es)))"
| "write_file (Dir es) (c # d # cs) =
     (case map_of es c of
        None \<Rightarrow> Inl (FileNotFoundError c)
      | Some n \<Rightarrow>
          (case write_file n (d # cs) of
             Inl e \<Rightarrow> Inl e
           | Inr n' \<Rightarrow> Inr (Dir (AList.update c n' es))))"

section \<open>indexer.py\<close>

text \<open>
  The index is a library object (\<open>'idx\<close>), as are the documents (\<open>'doc\<close>) and the storage
  context (\<open>'ctx\<close>). The library calls are parameters: \<open>load_data\<close> for
  \<open>SimpleDirectoryReader(dir).load_data()\<close>, \<open>from_documents\<close> for
  \<open>VectorStoreIndex.from_documents\<close>, \<open>persist\<close> for \<open>storage_context.persist\<close>, which
  returns the file system it leaves behind also when it raises, \<open>storage_from_defaults\<close>
  for \<open>StorageContext.from_defaults\<close> and \<open>load_index_from_storage\<close>. An index object is
  truthy, so \<open>not self.index\<close> holds exactly when no index is stored. The process-wide
  \<open>Settings\<close> that \<open>__init__\<close> assigns are read by the library only.
\<close>

record 'idx DocumentIndexer =
  data_dir :: path
  index_name :: pystr
  stored_index :: "'idx option"

definition DocumentIndexer_init :: "path \<Rightarrow> pystr \<Rightarrow> 'idx DocumentIndexer" where
  "DocumentIndexer_init dir name = \<lparr>data_dir = dir, index_name = name, stored_index = None\<rparr>"

text \<open>The messages of the exceptions, as the f-strings build them.\<close>

definition directory_missing_message :: "path \<Rightarrow> pystr" where
  "directory_missing_message dir = lit ''El directorio '' @ str_path dir @ lit '' no existe''"

definition directory_empty_message :: "path \<Rightarrow> pystr" where
  "directory_empty_message dir =
     lit ''El directorio '' @ str_path dir @ lit '' est'' @ a_acute @ lit '' vac'' @ i_acute
     @ lit ''o. Por favor, a'' @ [241] @ lit ''ade documentos.''"

definition no_index_message :: pystr where
  "no_index_message =
     lit ''No hay un '' @ i_acute @ lit ''ndice para guardar. Ejecuta create_index primero.''"

definition index_missing_message :: "path \<Rightarrow> pystr" where
  "index_missing_message persist_path =
     lit ''No se encontr'' @ o_acute @ lit '' ning'' @ u_acute @ lit ''n '' @ i_acute
     @ lit ''ndice en '' @ str_path persist_path"

definition load_documents ::
  "(node \<Rightarrow> path \<Rightarrow> pystr + 'doc list) \<Rightarrow> node \<Rightarrow> 'idx DocumentIndexer \<Rightarrow> error + 'doc list" where
  "load_documents load_data fs self =
     (if \<not> exists fs (data_dir self)
      then Inl (FileNotFoundError (directory_missing_message (data_dir self)))
      else (case iterdir fs (data_dir self) of
              Inl e \<Rightarrow> Inl e
            | Inr entries \<Rightarrow>
                if entries = []
                then Inl (ValueError (directory_empty_message (data_dir self)))
                else (case load_data fs (data_dir self) of
                        Inl msg \<Rightarrow> Inl (ExternalError msg)
                      | Inr documents \<Rightarrow> Inr documents)))"

definition create_index ::
  "(node \<Rightarrow> path \<Rightarrow> pystr + 'doc list) \<Rightarrow> ('doc list \<Rightarrow> pystr + 'idx) \<Rightarrow>
   node \<Rightarrow> 'idx DocumentIndexer \<Rightarrow> (error + 'idx) \<times> 'idx DocumentIndexer" where
  "create_index load_data from_documents fs self =
     (case load_documents load_data fs self of
        Inl e \<Rightarrow> (Inl e, self)
      | Inr documents \<Rightarrow>
          (case from_documents documents of
             Inl msg \<Rightarrow> (Inl (ExternalError msg), self)
           | Inr idx \<Rightarrow> (Inr idx, self\<lparr>stored_index := Some idx\<rparr>)))"

text \<open>\<open>save_index\<close> returns its result and the file system after the call.\<close>

definition save_index ::
  "('idx \<Rightarrow> path \<Rightarrow> node \<Rightarrow> (pystr + unit) \<times> node) \<Rightarrow>
   node \<Rightarrow> 'idx DocumentIndexer \<Rightarrow> path \<Rightarrow> (error + unit) \<times> node" where
  "save_index persist fs self persist_dir =
     (case stored_index self of
        None \<Rightarrow>
          (Inl (ValueError no_index_message), fs)
      | Some idx \<Rightarrow>
          (case mkdir fs persist_dir of
             Inl e \<Rightarrow> (Inl e, fs)
           | Inr fs1 \<Rightarrow>
               (case persist idx persist_dir fs1 of
                  (Inl msg, fs2) \<Rightarrow> (Inl (ExternalError msg), fs2)
                | (Inr _, fs2) \<Rightarrow> (Inr (), fs2))))"

definition load_index ::
  "(node \<Rightarrow> path \<Rightarrow> pystr + 'ctx) \<Rightarrow> ('ctx \<Rightarrow> pystr + 'idx) \<Rightarrow>
   node \<Rightarrow> 'idx DocumentIndexer \<Rightarrow> path \<Rightarrow> (error + 'idx) \<times> 'idx DocumentIndexer" where
  "load_index storage_from_defaults load_index_from_storage fs self persist_dir =
     (if \<not> exists fs persist_dir
      then (Inl (FileNotFoundError (index_missing_message persist_dir)), self)
      else (case storage_from_defaults fs persist_dir of
              Inl msg \<Rightarrow> (Inl (ExternalError msg), self)
            | Inr storage_context \<Rightarrow>
                (case load_index_from_storage storage_context of
                   Inl msg \<Rightarrow> (Inl (ExternalError msg), self)
                 | Inr idx \<Rightarrow> (Inr idx, self\<lparr>stored_index := Some idx\<rparr>))))"

section \<open>The front-ends' use of the indexer\<close>

text \<open>
  Both front-ends build a new index with \<open>create_index\<close> followed by \<open>save_index\<close>
  (\<open>app.py\<close>, \<open>streamlit_app.py\<close>); an exception of the first skips the second. The result
  is the index, the indexer and the file system afterwards.
\<close>

definition create_and_save ::
  "(node \<Rightarrow> path \<Rightarrow> pystr + 'doc list) \<Rightarrow> ('doc list \<Rightarrow> pystr + 'idx) \<Rightarrow>
   ('idx \<Rightarrow> path \<Rightarrow> node \<Rightarrow> (pystr + unit) \<times> node) \<Rightarrow>
   node \<Rightarrow> path \<Rightarrow> path \<Rightarrow> (error + 'idx) \<times> 'idx DocumentIndexer \<times> node" where
  "create_and_save load_data from_documents persist fs dir persist_dir =
     (let indexer = DocumentIndexer_init dir (lit ''llamaindex_chatbot'')
      in (case create_index load_data from_documents fs indexer of
            (Inl e, indexer1) \<Rightarrow> (Inl e, indexer1, fs)
          | (Inr idx, indexer1) \<Rightarrow>
              (case save_index persist fs indexer1 persist_dir of
                 (Inl e, fs1) \<Rightarrow> (Inl e, indexer1, fs1)
               | (Inr _, fs1) \<Rightarrow> (Inr idx, indexer1, fs1))))"

text \<open>
  At start-up \<open>streamlit_app.py\<close> loads the persisted index and, from it, constructs the
  retriever (\<open>top_k=3\<close>) and the chatbot; an exception of \<open>load_index\<close> leaves the session
  without a chatbot.
\<close>

definition load_chatbot ::
  "(node \<Rightarrow> path \<Rightarrow> pystr + 'ctx) \<Rightarrow> ('ctx \<Rightarrow> pystr + 'idx) \<Rightarrow> (pystr \<Rightarrow> nat) \<Rightarrow>
   node \<Rightarrow> path \<Rightarrow> path \<Rightarrow> error + 'idx RagChatbot" where
  "load_chatbot storage_from_defaults load_index_from_storage tok fs dir persist_dir =
     (let indexer = DocumentIndexer_init dir (lit ''llamaindex_chatbot'')
      in (case load_index storage_from_defaults load_index_from_storage fs indexer persist_dir of
            (Inl e, _) \<Rightarrow> Inl e
          | (Inr idx, _) \<Rightarrow> Inr (RagChatbot_init tok (InformationRetriever_init idx 3))))"

section \<open>Example collaborators and states\<close>

text \<open>
  Concrete instances of the parameters, for evaluating the operations: a tokenizer that
  counts one token per code point, a query engine and a language model that answer, and
  ones that raise.
\<close>

definition one_token_per_char :: "pystr \<Rightarrow> nat" where
  "one_token_per_char s = length s"

definition query_ok :: "nat RetrieverQueryEngine \<Rightarrow> pystr \<Rightarrow> pystr + Response" where
  "query_ok qe query_text = Inr (Response (lit ''contexto''))"

definition query_fails :: "nat RetrieverQueryEngine \<Rightarrow> pystr \<Rightarrow> pystr + Response" where
  "query_fails qe query_text = Inl (lit ''connection timed out'')"

definition complete_with :: "pystr \<Rightarrow> OpenAI \<Rightarrow> pystr \<Rightarrow> pystr + CompletionResponse" where
  "complete_with answer model prompt = Inr (CompletionResponse answer)"

definition complete_fails :: "OpenAI \<Rightarrow> pystr \<Rightarrow> pystr + CompletionResponse" where
  "complete_fails model prompt = Inl (lit ''rate limit exceeded'')"

definition long_text :: pystr where
  "long_text = replicate 1000 97"

definition fresh_chatbot :: "nat RagChatbot" where
  "fresh_chatbot = RagChatbot_init one_token_per_char (InformationRetriever_init 0 3)"

text \<open>The chatbot after two successful turns of 1000 tokens a message.\<close>

definition busy_chatbot :: "nat RagChatbot" where
  "busy_chatbot =
     snd (chat query_ok (complete_with long_text)
            (snd (chat query_ok (complete_with long_text) fresh_chatbot long_text)) long_text)"

text \<open>
  A working directory without a \<open>data\<close> directory, one where it is empty, and one where it
  holds a document and the index has been persisted under \<open>storage\<close>; a reader, an index
  builder and a storage layer that succeed (a document is its text here, an index the
  documents it was built from, and the persisted index a file \<open>index_store.json\<close>).
\<close>

definition data_path :: path where
  "data_path = [lit ''data'']"

definition storage_path :: path where
  "storage_path = [lit ''storage'']"

definition fs_no_data :: node where
  "fs_no_data = Dir []"

definition fs_empty_data :: node where
  "fs_empty_data = Dir [(lit ''data'', Dir [])]"

definition fs_with_document :: node where
  "fs_with_document = Dir [(lit ''data'', Dir [(lit ''notes.txt'', File)])]"

definition fs_with_storage :: node where
  "fs_with_storage =
     Dir [(lit ''data'', Dir [(lit ''notes.txt'', File)]),
          (lit ''storage'', Dir [(lit ''index_store.json'', File)])]"

definition load_data_ok :: "node \<Rightarrow> path \<Rightarrow> pystr + pystr list" where
  "load_data_ok fs dir = Inr [lit ''The sky is blue. Grass is green.'']"

definition from_documents_ok :: "pystr list \<Rightarrow> pystr + pystr list" where
  "from_documents_ok documents = Inr documents"

definition persist_ok :: "pystr list \<Rightarrow> path \<Rightarrow> node \<Rightarrow> (pystr + unit) \<times> node" where
  "persist_ok idx dir fs =
     (case write_file fs (dir @ [lit ''index_store.json'']) of
        Inl _ \<Rightarrow> (Inl (lit ''cannot write''), fs)
      | Inr fs1 \<Rightarrow> (Inr (), fs1))"

definition storage_from_defaults_ok :: "node \<Rightarrow> path \<Rightarrow> pystr + path" where
  "storage_from_defaults_ok fs dir = Inr dir"

definition load_index_from_storage_ok :: "path \<Rightarrow> pystr + pystr list" where
  "load_index_from_storage_ok storage_context = Inr [lit ''The sky is blue. Grass is green.'']"

definition example_indexer :: "pystr list DocumentIndexer" where
  "example_indexer = DocumentIndexer_init data_path (lit ''llamaindex_chatbot'')"

text \<open>
  A chunk of 103 characters that ends in three dots, a chunk of 101 characters, and a
  retriever that finds them with the scores 9 and 7 (scores are opaque; numbers stand in
  for the floats).
\<close>

definition dotted_chunk :: "nat NodeWithScore" where
  "dotted_chunk = \<lparr>node_text = replicate 100 97 @ lit ''...'', score = HasAttr (Some 9)\<rparr>"

definition long_chunk :: "nat NodeWithScore" where
  "long_chunk = \<lparr>node_text = replicate 101 97, score = HasAttr (Some 7)\<rparr>"

definition retrieve_chunks :: "nat VectorIndexRetriever \<Rightarrow> pystr \<Rightarrow> pystr + nat NodeWithScore list" where
  "retrieve_chunks r query_text = Inr [dotted_chunk, long_chunk]"

section \<open>Properties of the chat memory\<close>

lemma token_count_append:
  "token_count tok (xs @ ys) = token_count tok xs + token_count tok ys"
  by (simp add: token_count_def)

lemma evict_fits: "token_count tok ms \<le> limit \<Longrightarrow> evict tok limit ms = ms"
  by (cases ms) auto

lemma evict_bounded: "token_count tok (evict tok limit ms) \<le> limit"
  by (induction ms) (auto simp: token_count_def)

lemma evict_suffix: "suffix (evict tok limit ms) ms"
  by (induction ms) (auto simp: suffix_Cons)

lemma evict_longest:
  "suffix zs ms \<Longrightarrow> token_count tok zs \<le> limit \<Longrightarrow> suffix zs (evict tok limit ms)"
  by (induction ms) (auto simp: suffix_Cons)

lemma put_fields:
  "token_limit (put r c b) = token_limit b" "tokenizer_fn (put r c b) = tokenizer_fn b"
  by (simp_all add: put_def)

lemma put_bounded: "token_count (tokenizer_fn b) (messages (put r c b)) \<le> token_limit b"
  by (simp add: put_def evict_bounded)

section \<open>Properties of the chat session\<close>

lemma chat_error_state:
  "fst (chat query complete self u) = Inl e \<Longrightarrow> snd (chat query complete self u) = self"
  by (auto simp: chat_def Let_def split: sum.splits)

lemma chat_success:
  "retrieve_information query (cb_retriever self) u = Inr r \<Longrightarrow>
   complete (llm self) (build_prompt (system_prompt self) (format_chat_history self) (str_Response r) u) = Inr resp \<Longrightarrow>
   chat query complete self u =
     (Inr (str_CompletionResponse resp),
      self\<lparr>chat_history := put (lit ''assistant'') (str_CompletionResponse resp)
                              (put (lit ''user'') u (chat_history self))\<rparr>)"
  by (simp add: chat_def)

lemma reachable_inv:
  "reachable tok s \<Longrightarrow> token_limit (chat_history s) = 4096 \<and> tokenizer_fn (chat_history s) = tok
     \<and> token_count tok (messages (chat_history s)) \<le> 4096"
proof (induction rule: reachable.induct)
  case (init r)
  then show ?case by (simp add: RagChatbot_init_def from_defaults_def token_count_def)
next
  case (turn self query complete user_input)
  show ?case
  proof (cases "fst (chat query complete self user_input)")
    case (Inl e)
    then show ?thesis using turn chat_error_state[OF Inl] by simp
  next
    case (Inr a)
    then show ?thesis using turn put_bounded[of "put (lit ''user'') user_input (chat_history self)"]
      by (auto simp: chat_def Let_def put_fields split: sum.splits)
  qed
next
  case (clear self)
  then show ?case by (simp add: clear_history_def reset_def token_count_def)
qed

text \<open>The example states, evaluated.\<close>

lemma length_long_text: "length long_text = 1000"
  by (simp add: long_text_def)

lemma retrieve_fresh:
  "retrieve_information query_ok (cb_retriever fresh_chatbot) u = Inr (Response (lit ''contexto''))"
  by (simp add: retrieve_information_def fresh_chatbot_def RagChatbot_init_def
      InformationRetriever_init_def setup_retriever_def query_ok_def)

lemma chat_history_fresh:
  "chat_history fresh_chatbot = \<lparr>token_limit = 4096, tokenizer_fn = one_token_per_char, messages = []\<rparr>"
  by (simp add: fresh_chatbot_def RagChatbot_init_def from_defaults_def)

lemma busy_chatbot_eq:
  "busy_chatbot = fresh_chatbot\<lparr>chat_history :=
      \<lparr>token_limit = 4096, tokenizer_fn = one_token_per_char,
       messages = [\<lparr>role = lit ''user'', content = long_text\<rparr>,
                   \<lparr>role = lit ''assistant'', content = long_text\<rparr>,
                   \<lparr>role = lit ''user'', content = long_text\<rparr>,
                   \<lparr>role = lit ''assistant'', content = long_text\<rparr>]\<rparr>\<rparr>"
  by (simp add: busy_chatbot_def chat_def retrieve_fresh complete_with_def chat_history_fresh
      put_def token_count_def one_token_per_char_def length_long_text)

text \<open>
  C2. For every user input, if the retrieval call raises, or it succeeds and the
  completion raises, \<open>chat\<close> propagates that error and leaves the chatbot, and with it the
  chat history, exactly as it was: the failed turn's user input is not in the history, and
  the next turn runs as if the failed one had never been made.
\<close>

theorem chat_failure_leaves_history_unchanged:
  assumes "retrieve_information query (cb_retriever self) user_input = Inl e
         \<or> (\<exists>r msg. retrieve_information query (cb_retriever self) user_input = Inr r
              \<and> complete (llm self) (build_prompt (system_prompt self) (format_chat_history self)
                                        (str_Response r) user_input) = Inl msg
              \<and> e = ExternalError msg)"
  shows "chat query complete self user_input = (Inl e, self)
       \<and> get_chat_history (snd (chat query complete self user_input)) = get_chat_history self
       \<and> chat query2 complete2 (snd (chat query complete self user_input)) next_input
           = chat query2 complete2 self next_input"
proof -
  have "chat query complete self user_input = (Inl e, self)"
    using assms by (auto simp: chat_def)
  then show ?thesis by simp
qed

text \<open>The language model raises in the third turn of a session: nothing changes.\<close>

theorem chat_failure_leaves_history_unchanged_witness:
  "chat query_ok complete_fails busy_chatbot (lit ''hola'')
     = (Inl (ExternalError (lit ''rate limit exceeded'')), busy_chatbot)
   \<and> get_chat_history (snd (chat query_ok complete_fails busy_chatbot (lit ''hola'')))
       = get_chat_history busy_chatbot
   \<and> chat query_ok (complete_with long_text)
        (snd (chat query_ok complete_fails busy_chatbot (lit ''hola''))) long_text
       = chat query_ok (complete_with long_text) busy_chatbot long_text"
proof -
  have r: "retrieve_information query_ok (cb_retriever busy_chatbot) (lit ''hola'')
             = Inr (Response (lit ''contexto''))"
    using retrieve_fresh by (simp add: busy_chatbot_eq)
  have c: "complete_fails (llm busy_chatbot)
             (build_prompt (system_prompt busy_chatbot) (format_chat_history busy_chatbot)
                (str_Response (Response (lit ''contexto''))) (lit ''hola''))
             = Inl (lit ''rate limit exceeded'')"
    by (simp add: complete_fails_def)
  show ?thesis
    using chat_failure_leaves_history_unchanged
      [of query_ok busy_chatbot "lit ''hola''" "ExternalError (lit ''rate limit exceeded'')"
          complete_fails query_ok "complete_with long_text" long_text] r c
    by blast
qed

text \<open>
  C6. The chat history is always bounded by the token budget of 4096 tokens: every
  chatbot reachable from \<open>__init__\<close> has the limit 4096 and a history within it. After
  each \<open>put\<close> the history fits the limit and is a suffix of the old history followed by the
  new turn, so a turn is only ever removed together with all older ones; and every suffix
  that fits the limit is a suffix of the result, so eviction stops as soon as the
  history fits.
\<close>

theorem history_bounded_by_token_budget:
  "(reachable tok self \<longrightarrow>
      token_limit (chat_history self) = 4096
      \<and> token_count tok (get_messages (chat_history self)) \<le> 4096)
   \<and> token_count (tokenizer_fn b) (get_messages (put r c b)) \<le> token_limit b
   \<and> suffix (get_messages (put r c b)) (get_messages b @ [\<lparr>role = r, content = c\<rparr>])
   \<and> (\<forall>zs. suffix zs (get_messages b @ [\<lparr>role = r, content = c\<rparr>])
             \<and> token_count (tokenizer_fn b) zs \<le> token_limit b
           \<longrightarrow> suffix zs (get_messages (put r c b)))"
proof -
  let ?new = "messages b @ [\<lparr>role = r, content = c\<rparr>]"
  have m: "get_messages (put r c b) = evict (tokenizer_fn b) (token_limit b) ?new"
    by (simp add: get_messages_def put_def)
  have g: "get_messages b = messages b"
    by (simp add: get_messages_def)
  have "reachable tok self \<longrightarrow>
      token_limit (chat_history self) = 4096
      \<and> token_count tok (get_messages (chat_history self)) \<le> 4096"
    using reachable_inv[of tok self] by (simp add: get_messages_def)
  moreover have "token_count (tokenizer_fn b) (get_messages (put r c b)) \<le> token_limit b"
    unfolding m by (rule evict_bounded)
  moreover have "suffix (get_messages (put r c b)) (get_messages b @ [\<lparr>role = r, content = c\<rparr>])"
    unfolding m g by (rule evict_suffix)
  moreover have "\<forall>zs. suffix zs (get_messages b @ [\<lparr>role = r, content = c\<rparr>])
             \<and> token_count (tokenizer_fn b) zs \<le> token_limit b
           \<longrightarrow> suffix zs (get_messages (put r c b))"
    unfolding m g by (blast intro: evict_longest)
  ultimately show ?thesis by blast
qed

text \<open>
  The chatbot after two long turns is reachable and within the budget; putting a further
  long turn evicts exactly the oldest turn.
\<close>

theorem history_bounded_by_token_budget_witness:
  "reachable one_token_per_char busy_chatbot
   \<and> token_count one_token_per_char (get_messages (chat_history busy_chatbot)) \<le> 4096
   \<and> get_messages (put (lit ''user'') long_text (chat_history busy_chatbot))
       = [\<lparr>role = lit ''assistant'', content = long_text\<rparr>,
          \<lparr>role = lit ''user'', content = long_text\<rparr>,
          \<lparr>role = lit ''assistant'', content = long_text\<rparr>,
          \<lparr>role = lit ''user'', content = long_text\<rparr>]
   \<and> suffix [\<lparr>role = lit ''user'', content = long_text\<rparr>]
        (get_messages (put (lit ''user'') long_text (chat_history busy_chatbot)))"
proof -
  have r: "reachable one_token_per_char busy_chatbot"
    unfolding busy_chatbot_def fresh_chatbot_def
    by (intro reachable.turn reachable.init)
  have p: "get_messages (put (lit ''user'') long_text (chat_history busy_chatbot))
       = [\<lparr>role = lit ''assistant'', content = long_text\<rparr>,
          \<lparr>role = lit ''user'', content = long_text\<rparr>,
          \<lparr>role = lit ''assistant'', content = long_text\<rparr>,
          \<lparr>role = lit ''user'', content = long_text\<rparr>]"
    by (simp add: busy_chatbot_eq get_messages_def put_def token_count_def
        one_token_per_char_def length_long_text)
  have s: "suffix [\<lparr>role = lit ''user'', content = long_text\<rparr>]
             (get_messages (chat_history busy_chatbot) @ [\<lparr>role = lit ''user'', content = long_text\<rparr>])"
    by (simp add: suffix_def)
  have t: "token_count (tokenizer_fn (chat_history busy_chatbot))
             [\<lparr>role = lit ''user'', content = long_text\<rparr>] \<le> token_limit (chat_history busy_chatbot)"
    by (simp add: busy_chatbot_eq token_count_def one_token_per_char_def length_long_text)
  show ?thesis
    using history_bounded_by_token_budget
      [of one_token_per_char busy_chatbot "chat_history busy_chatbot" "lit ''user''" long_text]
      r p s t
    by blast
qed


section \<open>Properties of the file system\<close>

lemma mkdir_is_dir: "mkdir fs p = Inr fs1 \<Longrightarrow> \<exists>es. lookup fs1 p = Some (Dir es)"
proof (induction fs p arbitrary: fs1 rule: mkdir.induct)
  case (4 es c cs)
  show ?case
  proof (cases "map_of es c")
    case None
    with 4 show ?thesis
      by (auto split: sum.splits simp: map_add_def)
  next
    case (Some n)
    with 4 show ?thesis
      by (auto split: sum.splits simp: update_conv')
  qed
qed auto

lemma mkdir_existing: "lookup fs p = Some (Dir es) \<Longrightarrow> mkdir fs p = Inr fs"
proof (induction fs p rule: mkdir.induct)
  case (4 es' c cs)
  then show ?case
    by (auto split: option.splits simp: update_triv)
qed auto

text \<open>The example file systems, evaluated.\<close>

lemma lit_neq: "lit ''data'' \<noteq> lit ''storage''" "lit ''storage'' \<noteq> lit ''data''"
  by (simp_all add: lit_def)

lemma lookup_no_data: "lookup fs_no_data data_path = None"
  by (simp add: fs_no_data_def data_path_def)

lemma lookup_empty_data: "lookup fs_empty_data data_path = Some (Dir [])"
  by (simp add: fs_empty_data_def data_path_def)

lemma lookup_with_document: "lookup fs_with_document data_path = Some (Dir [(lit ''notes.txt'', File)])"
  by (simp add: fs_with_document_def data_path_def)

lemma lookup_storage_missing: "lookup fs_with_document storage_path = None"
  by (simp add: fs_with_document_def storage_path_def lit_neq)

lemma lookup_storage: "lookup fs_with_storage storage_path = Some (Dir [(lit ''index_store.json'', File)])"
  by (simp add: fs_with_storage_def storage_path_def lit_neq)

lemma mkdir_storage: "mkdir fs_with_document storage_path
   = Inr (Dir [(lit ''data'', Dir [(lit ''notes.txt'', File)]), (lit ''storage'', Dir [])])"
  by (simp add: fs_with_document_def storage_path_def lit_neq)

lemma persist_storage:
  "persist_ok idx storage_path (Dir [(lit ''data'', Dir [(lit ''notes.txt'', File)]), (lit ''storage'', Dir [])])
    = (Inr (), fs_with_storage)"
  by (simp add: persist_ok_def storage_path_def fs_with_storage_def lit_neq)

section \<open>Properties of the indexer\<close>



text \<open>
  C4. If the corpus directory is missing or empty, \<open>create_index\<close> raises the corresponding
  error and leaves the indexer as it was, whatever the index builder would have done, so
  no index is built and a stored index that was unset remains unset; the build of the
  front-ends (\<open>create_index\<close>, then \<open>save_index\<close>) stops at that error with the file
  system unchanged; and \<open>save_index\<close> on the indexer that has no index writes nothing
  either. No index artifact reaches the disk.
\<close>

theorem create_index_fails_without_corpus:
  "(lookup fs dir = None \<longrightarrow>
      (data_dir self = dir \<longrightarrow>
         create_index load_data from_documents fs self
           = (Inl (FileNotFoundError (directory_missing_message dir)), self))
      \<and> create_and_save load_data from_documents persist fs dir persist_dir
           = (Inl (FileNotFoundError (directory_missing_message dir)),
              DocumentIndexer_init dir (lit ''llamaindex_chatbot''), fs))
   \<and> (lookup fs dir = Some (Dir []) \<longrightarrow>
      (data_dir self = dir \<longrightarrow>
         create_index load_data from_documents fs self
           = (Inl (ValueError (directory_empty_message dir)), self))
      \<and> create_and_save load_data from_documents persist fs dir persist_dir
           = (Inl (ValueError (directory_empty_message dir)),
              DocumentIndexer_init dir (lit ''llamaindex_chatbot''), fs))
   \<and> stored_index (DocumentIndexer_init dir name :: 'idx DocumentIndexer) = None
   \<and> save_index persist fs (DocumentIndexer_init dir name) persist_dir
        = (Inl (ValueError no_index_message), fs)"
  by (auto simp: create_index_def create_and_save_def load_documents_def exists_def iterdir_def
      DocumentIndexer_init_def save_index_def)

text \<open>An empty and a missing \<open>data\<close> directory: the error, a fresh indexer, the same disk.\<close>

theorem create_index_fails_without_corpus_witness:
  "create_index load_data_ok from_documents_ok fs_empty_data example_indexer
     = (Inl (ValueError (directory_empty_message data_path)), example_indexer)
   \<and> create_and_save load_data_ok from_documents_ok persist_ok fs_empty_data data_path storage_path
     = (Inl (ValueError (directory_empty_message data_path)), example_indexer, fs_empty_data)
   \<and> create_and_save load_data_ok from_documents_ok persist_ok fs_no_data data_path storage_path
     = (Inl (FileNotFoundError (directory_missing_message data_path)), example_indexer, fs_no_data)
   \<and> lookup fs_empty_data storage_path = None"
proof -
  have d: "data_dir example_indexer = data_path"
    by (simp add: example_indexer_def DocumentIndexer_init_def)
  have s: "lookup fs_empty_data storage_path = None"
    by (simp add: fs_empty_data_def storage_path_def lit_neq)
  have c1: "create_index load_data_ok from_documents_ok fs_empty_data example_indexer
     = (Inl (ValueError (directory_empty_message data_path)), example_indexer)"
    using create_index_fails_without_corpus
        [of fs_empty_data data_path example_indexer load_data_ok from_documents_ok persist_ok
            storage_path]
      lookup_empty_data d by blast
  have c2: "create_and_save load_data_ok from_documents_ok persist_ok fs_empty_data data_path
       storage_path
     = (Inl (ValueError (directory_empty_message data_path)),
        DocumentIndexer_init data_path (lit ''llamaindex_chatbot''), fs_empty_data)"
    using create_index_fails_without_corpus
        [of fs_empty_data data_path example_indexer load_data_ok from_documents_ok persist_ok
            storage_path]
      lookup_empty_data by blast
  have c3: "create_and_save load_data_ok from_documents_ok persist_ok fs_no_data data_path
       storage_path
     = (Inl (FileNotFoundError (directory_missing_message data_path)),
        DocumentIndexer_init data_path (lit ''llamaindex_chatbot''), fs_no_data)"
    using create_index_fails_without_corpus
        [of fs_no_data data_path example_indexer load_data_ok from_documents_ok persist_ok
            storage_path]
      lookup_no_data by blast
  show ?thesis
    using c1 c2 c3 s by (simp add: example_indexer_def)
qed

text \<open>\<open>load_index\<close>, with the existence check written as a lookup.\<close>

lemma load_index_eq:
  "load_index storage_from_defaults load_index_from_storage fs self persist_dir =
     (if lookup fs persist_dir = None
      then (Inl (FileNotFoundError (index_missing_message persist_dir)), self)
      else (case storage_from_defaults fs persist_dir of
              Inl msg \<Rightarrow> (Inl (ExternalError msg), self)
            | Inr storage_context \<Rightarrow>
                (case load_index_from_storage storage_context of
                   Inl msg \<Rightarrow> (Inl (ExternalError msg), self)
                 | Inr idx \<Rightarrow> (Inr idx, self\<lparr>stored_index := Some idx\<rparr>))))"
  by (simp add: load_index_def exists_def)

lemma load_index_error_state:
  "load_index storage_from_defaults load_index_from_storage fs self persist_dir = (Inl e, self1)
   \<Longrightarrow> self1 = self"
  unfolding load_index_eq
  by (cases "lookup fs persist_dir = None"; cases "storage_from_defaults fs persist_dir")
     (auto split: sum.splits)

lemma load_index_success:
  "load_index storage_from_defaults load_index_from_storage fs self persist_dir = (Inr idx, self1)
   \<Longrightarrow> lookup fs persist_dir \<noteq> None
       \<and> (\<exists>storage_context. storage_from_defaults fs persist_dir = Inr storage_context
              \<and> load_index_from_storage storage_context = Inr idx)
       \<and> self1 = self\<lparr>stored_index := Some idx\<rparr>"
  unfolding load_index_eq
  by (cases "lookup fs persist_dir = None"; cases "storage_from_defaults fs persist_dir")
     (auto split: sum.splits)

text \<open>
  C5. For every persist path: when the path does not exist, \<open>load_index\<close> fails with
  \<open>FileNotFoundError\<close> (the spec's NotFoundError), leaves the indexer as it was, and the
  construction of the chatbot from the persisted index ends in that error without a
  chatbot. \<open>load_index\<close> returns an index only when the path exists and the storage layer
  delivered that very index, which is then the stored one; whenever it raises, it returns
  no index and stores none.
\<close>

theorem load_index_missing_path:
  "(lookup fs persist_dir = None \<longrightarrow>
      load_index storage_from_defaults load_index_from_storage fs self persist_dir
        = (Inl (FileNotFoundError (index_missing_message persist_dir)), self)
      \<and> load_chatbot storage_from_defaults load_index_from_storage tok fs dir persist_dir
        = Inl (FileNotFoundError (index_missing_message persist_dir)))
   \<and> (\<forall>idx self1.
        load_index storage_from_defaults load_index_from_storage fs self persist_dir
          = (Inr idx, self1) \<longrightarrow>
        lookup fs persist_dir \<noteq> None
        \<and> (\<exists>storage_context. storage_from_defaults fs persist_dir = Inr storage_context
              \<and> load_index_from_storage storage_context = Inr idx)
        \<and> self1 = self\<lparr>stored_index := Some idx\<rparr>)
   \<and> (\<forall>e self1.
        load_index storage_from_defaults load_index_from_storage fs self persist_dir
          = (Inl e, self1) \<longrightarrow> self1 = self)"
proof (intro conjI impI allI)
  assume "lookup fs persist_dir = None"
  then show "load_index storage_from_defaults load_index_from_storage fs self persist_dir
        = (Inl (FileNotFoundError (index_missing_message persist_dir)), self)"
    by (simp add: load_index_eq)
next
  assume "lookup fs persist_dir = None"
  then show "load_chatbot storage_from_defaults load_index_from_storage tok fs dir persist_dir
        = Inl (FileNotFoundError (index_missing_message persist_dir))"
    by (simp add: load_chatbot_def load_index_eq)
next
  fix idx self1
  assume a: "load_index storage_from_defaults load_index_from_storage fs self persist_dir
          = (Inr idx, self1)"
  from load_index_success [OF a] show "lookup fs persist_dir \<noteq> None" by blast
  from load_index_success [OF a]
  show "\<exists>storage_context. storage_from_defaults fs persist_dir = Inr storage_context
              \<and> load_index_from_storage storage_context = Inr idx" by blast
  from load_index_success [OF a] show "self1 = self\<lparr>stored_index := Some idx\<rparr>" by blast
next
  fix e self1
  assume "load_index storage_from_defaults load_index_from_storage fs self persist_dir
          = (Inl e, self1)"
  then show "self1 = self" by (rule load_index_error_state)
qed

text \<open>Loading from a working directory without \<open>storage\<close>, and from one that has it.\<close>

theorem load_index_missing_path_witness:
  "load_index storage_from_defaults_ok load_index_from_storage_ok fs_with_document
       example_indexer storage_path
     = (Inl (FileNotFoundError (index_missing_message storage_path)), example_indexer)
   \<and> (load_chatbot storage_from_defaults_ok load_index_from_storage_ok one_token_per_char
         fs_with_document data_path storage_path :: error + pystr list RagChatbot)
     = Inl (FileNotFoundError (index_missing_message storage_path))
   \<and> load_index storage_from_defaults_ok load_index_from_storage_ok fs_with_storage
       example_indexer storage_path
     = (Inr [lit ''The sky is blue. Grass is green.''],
        example_indexer\<lparr>stored_index := Some [lit ''The sky is blue. Grass is green.'']\<rparr>)
   \<and> lookup fs_with_storage storage_path \<noteq> None"
proof -
  have l: "load_index storage_from_defaults_ok load_index_from_storage_ok fs_with_storage
       example_indexer storage_path
     = (Inr [lit ''The sky is blue. Grass is green.''],
        example_indexer\<lparr>stored_index := Some [lit ''The sky is blue. Grass is green.'']\<rparr>)"
    by (simp add: load_index_eq lookup_storage storage_from_defaults_ok_def
        load_index_from_storage_ok_def)
  have m: "load_index storage_from_defaults_ok load_index_from_storage_ok fs_with_document
       example_indexer storage_path
     = (Inl (FileNotFoundError (index_missing_message storage_path)), example_indexer)
   \<and> (load_chatbot storage_from_defaults_ok load_index_from_storage_ok one_token_per_char
         fs_with_document data_path storage_path :: error + pystr list RagChatbot)
     = Inl (FileNotFoundError (index_missing_message storage_path))"
    using load_index_missing_path
        [of fs_with_document storage_path storage_from_defaults_ok load_index_from_storage_ok
            example_indexer one_token_per_char data_path]
      lookup_storage_missing
    by blast
  have e: "lookup fs_with_storage storage_path \<noteq> None"
    using load_index_missing_path
        [of fs_with_storage storage_path storage_from_defaults_ok load_index_from_storage_ok
            example_indexer one_token_per_char data_path]
      l
    by blast
  show ?thesis using l m e by blast
qed

text \<open>
  C10. When no index is stored, \<open>save_index\<close> raises \<open>ValueError\<close> with the message of
  the source, which tells the caller that there is no index to save and to run
  \<open>create_index\<close> first, and returns the file system as it was. When an index is stored and \<open>mkdir\<close> succeeds, the
  persist directory exists afterwards (a directory that already existed is left as it
  was) and \<open>save_index\<close> is the library's \<open>persist\<close> of that index into that directory;
  when \<open>mkdir\<close> raises, the error propagates and nothing is written.
\<close>

theorem save_index_requires_index:
  "(stored_index self = None \<longrightarrow>
      save_index persist fs self persist_dir = (Inl (ValueError no_index_message), fs)
      \<and> no_index_message \<noteq> [])
   \<and> (\<forall>idx fs1. stored_index self = Some idx \<and> mkdir fs persist_dir = Inr fs1 \<longrightarrow>
        (\<exists>entries. lookup fs1 persist_dir = Some (Dir entries))
        \<and> save_index persist fs self persist_dir
            = (case persist idx persist_dir fs1 of
                 (Inl msg, fs2) \<Rightarrow> (Inl (ExternalError msg), fs2)
               | (Inr _, fs2) \<Rightarrow> (Inr (), fs2)))
   \<and> (\<forall>idx entries. stored_index self = Some idx
          \<and> lookup fs persist_dir = Some (Dir entries) \<longrightarrow> mkdir fs persist_dir = Inr fs)
   \<and> (\<forall>idx e. stored_index self = Some idx \<and> mkdir fs persist_dir = Inl e \<longrightarrow>
        save_index persist fs self persist_dir = (Inl e, fs))"
proof -
  have "no_index_message \<noteq> []"
    by (simp add: no_index_message_def lit_def)
  then show ?thesis
    using mkdir_is_dir [of fs persist_dir] mkdir_existing [of fs persist_dir]
    by (auto simp: save_index_def)
qed

text \<open>
  Saving before and after \<open>create_index\<close>: the first writes nothing, the second creates
  \<open>storage\<close> and the index file in it.
\<close>

theorem save_index_requires_index_witness:
  "save_index persist_ok fs_with_document example_indexer storage_path
     = (Inl (ValueError no_index_message), fs_with_document)
   \<and> save_index persist_ok fs_with_document
        (snd (create_index load_data_ok from_documents_ok fs_with_document example_indexer))
        storage_path
     = (Inr (), fs_with_storage)
   \<and> lookup fs_with_document storage_path = None
   \<and> lookup fs_with_storage storage_path = Some (Dir [(lit ''index_store.json'', File)])"
proof -
  let ?doc = "lit ''The sky is blue. Grass is green.''"
  let ?fs1 = "Dir [(lit ''data'', Dir [(lit ''notes.txt'', File)]), (lit ''storage'', Dir [])]"
  have n: "stored_index example_indexer = None"
    by (simp add: example_indexer_def DocumentIndexer_init_def)
  have c: "snd (create_index load_data_ok from_documents_ok fs_with_document example_indexer)
             = example_indexer\<lparr>stored_index := Some [?doc]\<rparr>"
    by (simp add: create_index_def load_documents_def exists_def iterdir_def example_indexer_def
        DocumentIndexer_init_def lookup_with_document load_data_ok_def from_documents_ok_def)
  have s: "stored_index (example_indexer\<lparr>stored_index := Some [?doc]\<rparr>) = Some [?doc]"
    by simp
  have a: "save_index persist_ok fs_with_document example_indexer storage_path
     = (Inl (ValueError no_index_message), fs_with_document)"
    using save_index_requires_index [of example_indexer persist_ok fs_with_document storage_path] n
    by blast
  have b: "save_index persist_ok fs_with_document
             (example_indexer\<lparr>stored_index := Some [?doc]\<rparr>) storage_path
           = (case persist_ok [?doc] storage_path ?fs1 of
                (Inl msg, fs2) \<Rightarrow> (Inl (ExternalError msg), fs2)
              | (Inr _, fs2) \<Rightarrow> (Inr (), fs2))"
    using save_index_requires_index
        [of "example_indexer\<lparr>stored_index := Some [?doc]\<rparr>" persist_ok fs_with_document
            storage_path] s mkdir_storage
    by blast
  show ?thesis
    using a b by (simp add: c persist_storage lookup_storage_missing lookup_storage)
qed

section \<open>Properties of the retriever's debug view\<close>

lemma retriever_init:
  "retriever (InformationRetriever_init idx k) = Some (VectorIndexRetriever idx k)"
  by (simp add: InformationRetriever_init_def setup_retriever_def)

lemma text_preview_short:
  "length (node_text node) \<le> 100 \<Longrightarrow> text_preview (summarize_node node) = node_text node"
  by (simp add: summarize_node_def)

lemma text_preview_long:
  "100 < length (node_text node) \<Longrightarrow>
   text_preview (summarize_node node) = take 100 (node_text node) @ lit ''...''"
  by (simp add: summarize_node_def)

lemma length_dots: "length (lit ''...'') = 3"
  by (simp add: lit_def)

text \<open>
  C7 (amended). For every query on which the retrieval succeeds, the debug view returns
  one summary per retrieved node, in order, with the node's raw score and a text preview.
  The preview is the full text when the text has 100 characters or fewer, and otherwise
  the first 100 characters of the text followed by \<open>...\<close>, 103 characters in all. Its
  first 100 characters are those of the text, previews of longer texts that agree on
  their first 100 characters are equal, and the preview of a longer text is the full
  text only when what follows the first 100 characters is exactly \<open>...\<close>.
\<close>

theorem get_retrieval_context_previews:
  "(retriever self = Some r \<and> retrieve r query_text = Inr nodes \<longrightarrow>
      get_retrieval_context retrieve self query_text
        = Inr \<lparr>num_nodes_retrieved = length nodes, nodes_summary = map summarize_node nodes\<rparr>)
   \<and> (score node = HasAttr s \<longrightarrow> summary_score (summarize_node node) = s)
   \<and> (length (node_text node) \<le> 100 \<longrightarrow>
        text_preview (summarize_node node) = node_text node)
   \<and> (100 < length (node_text node) \<longrightarrow>
        text_preview (summarize_node node) = take 100 (node_text node) @ lit ''...''
        \<and> length (text_preview (summarize_node node)) = 103)
   \<and> take 100 (text_preview (summarize_node node)) = take 100 (node_text node)
   \<and> (100 < length (node_text node) \<longrightarrow>
        (text_preview (summarize_node node) = node_text node
           \<longleftrightarrow> drop 100 (node_text node) = lit ''...''))
   \<and> (100 < length (node_text node) \<and> 100 < length (node_text node2)
        \<and> take 100 (node_text node) = take 100 (node_text node2) \<longrightarrow>
        text_preview (summarize_node node) = text_preview (summarize_node node2))"
proof (intro conjI impI)
  assume "retriever self = Some r \<and> retrieve r query_text = Inr nodes"
  then show "get_retrieval_context retrieve self query_text
        = Inr \<lparr>num_nodes_retrieved = length nodes, nodes_summary = map summarize_node nodes\<rparr>"
    by (simp add: get_retrieval_context_def)
next
  assume "score node = HasAttr s"
  then show "summary_score (summarize_node node) = s"
    by (simp add: summarize_node_def)
next
  assume "length (node_text node) \<le> 100"
  then show "text_preview (summarize_node node) = node_text node"
    by (rule text_preview_short)
next
  assume a: "100 < length (node_text node)"
  then show "text_preview (summarize_node node) = take 100 (node_text node) @ lit ''...''"
    by (rule text_preview_long)
  from a show "length (text_preview (summarize_node node)) = 103"
    by (simp add: text_preview_long length_dots)
next
  show "take 100 (text_preview (summarize_node node)) = take 100 (node_text node)"
    by (cases "100 < length (node_text node)") (simp_all add: summarize_node_def)
next
  assume a: "100 < length (node_text node)"
  have "take 100 (node_text node) @ lit ''...'' = node_text node
          \<longleftrightarrow> drop 100 (node_text node) = lit ''...''"
    using a by (auto simp: append_eq_conv_conj)
  then show "text_preview (summarize_node node) = node_text node
           \<longleftrightarrow> drop 100 (node_text node) = lit ''...''"
    using a by (simp add: text_preview_long)
next
  assume "100 < length (node_text node) \<and> 100 < length (node_text node2)
        \<and> take 100 (node_text node) = take 100 (node_text node2)"
  then show "text_preview (summarize_node node) = text_preview (summarize_node node2)"
    by (simp add: text_preview_long)
qed

text \<open>Two chunks with the same first 100 characters: the same preview, each its score.\<close>

theorem get_retrieval_context_previews_witness:
  "get_retrieval_context retrieve_chunks (InformationRetriever_init 0 3) (lit ''sky'')
     = Inr \<lparr>num_nodes_retrieved = 2,
            nodes_summary =
              [\<lparr>summary_score = Some 9, text_preview = replicate 100 97 @ lit ''...''\<rparr>,
               \<lparr>summary_score = Some 7, text_preview = replicate 100 97 @ lit ''...''\<rparr>]\<rparr>
   \<and> text_preview (summarize_node dotted_chunk) = text_preview (summarize_node long_chunk)"
proof -
  have d: "summarize_node dotted_chunk
             = \<lparr>summary_score = Some 9, text_preview = replicate 100 97 @ lit ''...''\<rparr>"
    by (simp add: summarize_node_def dotted_chunk_def length_dots)
  have l: "summarize_node long_chunk
             = \<lparr>summary_score = Some 7, text_preview = replicate 100 97 @ lit ''...''\<rparr>"
    by (simp add: summarize_node_def long_chunk_def)
  have r: "retrieve_chunks (VectorIndexRetriever 0 3) (lit ''sky'') = Inr [dotted_chunk, long_chunk]"
    by (simp add: retrieve_chunks_def)
  have t: "100 < length (node_text dotted_chunk) \<and> 100 < length (node_text long_chunk)
        \<and> take 100 (node_text dotted_chunk) = take 100 (node_text long_chunk)"
    by (simp add: dotted_chunk_def long_chunk_def length_dots)
  have "get_retrieval_context retrieve_chunks (InformationRetriever_init 0 3) (lit ''sky'')
     = Inr \<lparr>num_nodes_retrieved = length [dotted_chunk, long_chunk],
            nodes_summary = map summarize_node [dotted_chunk, long_chunk]\<rparr>
     \<and> text_preview (summarize_node dotted_chunk) = text_preview (summarize_node long_chunk)"
    using get_retrieval_context_previews
        [of "InformationRetriever_init (0::nat) 3" "VectorIndexRetriever (0::nat) 3"
            retrieve_chunks "lit ''sky''" "[dotted_chunk, long_chunk]"
            dotted_chunk "Some 9" long_chunk]
      retriever_init [of "0::nat" 3] r t
    by blast
  then show ?thesis by (simp add: d l)
qed

text \<open>
  C7 as stated does not hold. The preview of the chunk of 101 characters is not its first
  100 characters (three dots follow them), and the preview of the chunk of 103 characters
  that ends in three dots is the full contents of that chunk.
\<close>

theorem text_preview_counterexample:
  "get_retrieval_context retrieve_chunks (InformationRetriever_init 0 3) (lit ''sky'')
     = Inr \<lparr>num_nodes_retrieved = 2,
            nodes_summary = [summarize_node dotted_chunk, summarize_node long_chunk]\<rparr>
   \<and> 100 < length (node_text long_chunk)
   \<and> text_preview (summarize_node long_chunk) \<noteq> take 100 (node_text long_chunk)
   \<and> 100 < length (node_text dotted_chunk)
   \<and> text_preview (summarize_node dotted_chunk) = node_text dotted_chunk"
proof -
  have "length (text_preview (summarize_node long_chunk)) = 103"
    by (simp add: summarize_node_def long_chunk_def length_dots)
  moreover have "length (take 100 (node_text long_chunk)) = 100"
    by (simp add: long_chunk_def)
  ultimately have "text_preview (summarize_node long_chunk) \<noteq> take 100 (node_text long_chunk)"
    by auto
  then show ?thesis
    by (simp add: get_retrieval_context_def retriever_init retrieve_chunks_def)
       (simp add: summarize_node_def dotted_chunk_def long_chunk_def length_dots)
qed

section \<open>Properties of the returned history\<close>




end
